theory Spec2Isabelle
  imports Complex_Main
begin

section \<open>JavaScript values used by the checkout code\<close>

text \<open>
  The numeric fields of a request body and the numbers the handlers compute are
  JavaScript numbers. The model keeps the four kinds of value that the monetary code
  can see: \<open>undefined\<close> (an absent field), \<open>null\<close>, \<open>NaN\<close> and a finite number.
  A finite number is an exact rational: the model agrees with IEEE doubles wherever
  every intermediate value is exactly representable (in particular on integers of
  magnitude below \<open>2^53\<close>, and on the concrete inputs evaluated below). Infinities
  cannot be written in a JSON body and are not represented; string, boolean and
  object valued fields are outside the model.
\<close>

datatype jsval = Undefined | Null | NaN | Num rat

text \<open>\<open>Number(v)\<close>: \<open>undefined\<close> becomes \<open>NaN\<close>, \<open>null\<close> becomes \<open>0\<close>.\<close>

fun ToNumber :: "jsval \<Rightarrow> jsval" where
  "ToNumber Undefined = NaN"
| "ToNumber Null = Num 0"
| "ToNumber NaN = NaN"
| "ToNumber (Num q) = Num q"

text \<open>Truthiness: \<open>undefined\<close>, \<open>null\<close>, \<open>NaN\<close> and \<open>0\<close> are falsy.\<close>

fun truthy :: "jsval \<Rightarrow> bool" where
  "truthy (Num q) = (q \<noteq> 0)"
| "truthy _ = False"

text \<open>\<open>a || b\<close> and \<open>a ?? b\<close>.\<close>

definition js_or :: "jsval \<Rightarrow> jsval \<Rightarrow> jsval" where
  "js_or a b = (if truthy a then a else b)"

fun js_nullish :: "jsval \<Rightarrow> jsval \<Rightarrow> jsval" where
  "js_nullish Undefined b = b"
| "js_nullish Null b = b"
| "js_nullish a b = a"

text \<open>\<open>Number.isInteger\<close> on a finite number.\<close>

definition isInteger :: "rat \<Rightarrow> bool" where
  "isInteger q = (of_int \<lfloor>q\<rfloor> = q)"

text \<open>\<open>Math.round\<close>: the nearest integer, a tie going towards plus infinity.\<close>

definition Math_round :: "jsval \<Rightarrow> jsval" where
  "Math_round v = (case ToNumber v of Num q \<Rightarrow> Num (of_int \<lfloor>q + 1 / 2\<rfloor>) | _ \<Rightarrow> NaN)"

text \<open>The arithmetic operators on numbers: \<open>NaN\<close> is absorbing.\<close>

fun js_arith :: "(rat \<Rightarrow> rat \<Rightarrow> rat) \<Rightarrow> jsval \<Rightarrow> jsval \<Rightarrow> jsval" where
  "js_arith f a b =
     (case (ToNumber a, ToNumber b) of (Num x, Num y) \<Rightarrow> Num (f x y) | _ \<Rightarrow> NaN)"

definition js_add :: "jsval \<Rightarrow> jsval \<Rightarrow> jsval" where
  "js_add = js_arith (+)"

definition js_sub :: "jsval \<Rightarrow> jsval \<Rightarrow> jsval" where
  "js_sub = js_arith (-)"

definition js_mul :: "jsval \<Rightarrow> jsval \<Rightarrow> jsval" where
  "js_mul = js_arith (*)"

text \<open>\<open>a < b\<close> on numbers: false as soon as one side is \<open>NaN\<close>.\<close>

fun js_lt :: "jsval \<Rightarrow> jsval \<Rightarrow> bool" where
  "js_lt a b = (case (ToNumber a, ToNumber b) of (Num x, Num y) \<Rightarrow> x < y | _ \<Rightarrow> False)"

text \<open>
  \<open>parseInt(v, 10)\<close> on the values above. The argument is first converted to a string:
  \<open>undefined\<close>, \<open>null\<close> and \<open>NaN\<close> print as words and parse to \<open>NaN\<close>. A finite
  number prints in plain decimal notation when it is zero or its magnitude lies in
  \<open>[1e-6, 1e21)\<close>, and then the digits before the decimal point are read: truncation
  towards zero. Outside that range it prints in exponent form, one digit, then the
  fraction and the exponent (\<open>9e-7\<close>, \<open>1.5e+21\<close>), and only that first digit is read.
\<close>

definition plain_decimal :: "rat \<Rightarrow> bool" where
  "plain_decimal q = (q = 0 \<or> (1 / 1000000 \<le> \<bar>q\<bar> \<and> \<bar>q\<bar> < 1000000000000000000000))"

text \<open>The first significant digit of a positive number of magnitude at least 1.\<close>

function first_digit_large :: "rat \<Rightarrow> int" where
  "first_digit_large q = (if 10 \<le> q then first_digit_large (q / 10) else \<lfloor>q\<rfloor>)"
  by pat_completeness auto
termination
proof (relation "measure (\<lambda>q. nat \<lfloor>q\<rfloor>)")
  show "wf (measure (\<lambda>q::rat. nat \<lfloor>q\<rfloor>))"
    by simp
next
  fix q :: rat
  assume "10 \<le> q"
  then have "\<lfloor>q / 10\<rfloor> < \<lfloor>q\<rfloor>" "0 < \<lfloor>q\<rfloor>"
    by linarith+
  then show "(q / 10, q) \<in> measure (\<lambda>q. nat \<lfloor>q\<rfloor>)"
    by simp
qed

text \<open>The first significant digit of a positive number below 1.\<close>

function first_digit_small :: "rat \<Rightarrow> int" where
  "first_digit_small q =
     (if 0 < q \<and> q < 1 / 10 then first_digit_small (q * 10) else \<lfloor>q * 10\<rfloor>)"
  by pat_completeness auto
termination
proof (relation "measure (\<lambda>q. nat \<lfloor>1 / q\<rfloor>)")
  show "wf (measure (\<lambda>q::rat. nat \<lfloor>1 / q\<rfloor>))"
    by simp
next
  fix q :: rat
  assume "0 < q \<and> q < 1 / 10"
  then have large: "10 < 1 / q"
    by (simp add: field_simps)
  have "1 / (q * 10) = (1 / q) / 10"
    by simp
  with large have "\<lfloor>1 / (q * 10)\<rfloor> < \<lfloor>1 / q\<rfloor>" "0 < \<lfloor>1 / q\<rfloor>"
    by linarith+
  then show "(q * 10, q) \<in> measure (\<lambda>q. nat \<lfloor>1 / q\<rfloor>)"
    by simp
qed

declare first_digit_large.simps [simp del] first_digit_small.simps [simp del]

definition first_digit :: "rat \<Rightarrow> int" where
  "first_digit q = (if q < 1 then first_digit_small q else first_digit_large q)"

fun parseInt10 :: "jsval \<Rightarrow> jsval" where
  "parseInt10 (Num q) =
     Num (of_int
       (if plain_decimal q then (if 0 \<le> q then \<lfloor>q\<rfloor> else \<lceil>q\<rceil>)
        else if 0 \<le> q then first_digit q
        else - first_digit (- q)))"
| "parseInt10 _ = NaN"

section \<open>Monetary helpers of server.js\<close>

text \<open>
  The repository holds two revisions of server.js. The one modelled here is the later
  one, which stores the customer's phone and address and has the shipping fees; ship.js
  is the separate backend for payment intents and the webhook.
\<close>

text \<open>
  \<^verbatim>\<open>function toCents(value) {
    const n = Number(value);
    if (!Number.isFinite(n)) return 0;
    if (Number.isInteger(n) && n > 1000) return n; // already cents
    return Math.round(n * 100); // assume dollars
  }\<close>
\<close>

definition toCents :: "jsval \<Rightarrow> jsval" where
  "toCents v =
     (case ToNumber v of
        Num n \<Rightarrow> if isInteger n \<and> n > 1000 then Num n else Math_round (Num (n * 100))
      | _ \<Rightarrow> Num 0)"

text \<open>
  \<^verbatim>\<open>function fromCents(cents) { return (cents || 0) / 100; }\<close>
  The left operand of the division is never \<open>undefined\<close>, \<open>null\<close> or \<open>NaN\<close>: those are
  falsy and replaced by \<open>0\<close>.
\<close>

definition fromCents :: "jsval \<Rightarrow> jsval" where
  "fromCents cents = (case js_or cents (Num 0) of Num q \<Rightarrow> Num (q / 100) | _ \<Rightarrow> NaN)"

section \<open>Request bodies\<close>

text \<open>
  A cart line as the handlers read it: \<open>price\<close>, \<open>supplierCost\<close>, \<open>quantity\<close> and the
  alternative spelling \<open>qty\<close>. Identifier and title travel with the item but are never
  read by the monetary code. A customer has optional text fields; \<open>None\<close> is an absent
  (or null) field.
\<close>

record cart_item =
  price :: jsval
  supplierCost :: jsval
  quantity :: jsval
  qty :: jsval

record js_customer =
  name :: "string option"
  email :: "string option"
  phone :: "string option"
  address :: "string option"
  state :: "string option"

text \<open>
  The body of a checkout request: \<open>cartItems\<close> is \<open>None\<close> when the field is not an array,
  \<open>customer\<close> is \<open>None\<close> when it is absent.
\<close>

record order_body =
  body_cartItems :: "cart_item list option"
  body_customer :: "js_customer option"

text \<open>\<open>customer?.f\<close> and \<open>s || d\<close> on text: the empty string is falsy.\<close>

definition opt_field :: "js_customer option \<Rightarrow> (js_customer \<Rightarrow> string option) \<Rightarrow> string option" where
  "opt_field c f = (case c of None \<Rightarrow> None | Some x \<Rightarrow> f x)"

definition str_or :: "string option \<Rightarrow> string \<Rightarrow> string" where
  "str_or a d = (case a of None \<Rightarrow> d | Some s \<Rightarrow> if s = [] then d else s)"

definition configured :: "string option \<Rightarrow> bool" where
  "configured a = (case a of None \<Rightarrow> False | Some s \<Rightarrow> s \<noteq> [])"

text \<open>Decimal text of a natural number, for \<open>"o" + Date.now()\<close>.\<close>

definition digit :: "nat \<Rightarrow> char" where
  "digit n = ''0123456789'' ! n"

fun string_of_nat :: "nat \<Rightarrow> string" where
  "string_of_nat n =
     (if n < 10 then [digit n] else string_of_nat (n div 10) @ [digit (n mod 10)])"

declare string_of_nat.simps [simp del]

section \<open>The orders table\<close>

text \<open>
  One row of \<open>orders\<close>. \<open>payment_id\<close> is \<open>TEXT UNIQUE\<close> and may be \<open>NULL\<close> (\<open>None\<close>); the
  numeric columns hold the JavaScript numbers that were bound; \<open>items_json\<close> stands for
  the JSON text of the cart; timestamps are seconds. The ledger is the list of rows in
  rowid order: no statement of the program deletes or reorders rows of \<open>orders\<close>, so a
  row keeps its position.
\<close>

record order =
  local_order_id :: string
  payment_id :: "string option"
  status :: string
  customer_name :: string
  customer_email :: string
  customer_phone :: string
  customer_address :: string
  items_json :: "cart_item list"
  total_cents_usd :: jsval
  total_kobo_ngn :: jsval
  supplier_share_cents :: jsval
  profit_cents :: jsval
  supplier_response :: "string option"
  created_at :: nat
  processed_at :: "nat option"

type_synonym ledger = "order list"

datatype sql_error = SQLITE_CONSTRAINT

datatype conflict_clause = OR_ABORT | OR_IGNORE

text \<open>The payment references present in the table (\<open>NULL\<close>s left out).\<close>

definition refs :: "ledger \<Rightarrow> string list" where
  "refs L = List.map_filter payment_id L"

text \<open>
  The \<open>UNIQUE\<close> constraint on \<open>payment_id\<close>: a new row conflicts when its reference is
  not \<open>NULL\<close> and is already present. \<open>NULL\<close>s never conflict.
\<close>

definition unique_conflict :: "order \<Rightarrow> ledger \<Rightarrow> bool" where
  "unique_conflict r L = (case payment_id r of None \<Rightarrow> False | Some p \<Rightarrow> p \<in> set (refs L))"

text \<open>
  \<open>INSERT\<close> with its conflict clause: a plain insert fails on a conflict, \<open>INSERT OR
  IGNORE\<close> skips the row and reports success.
\<close>

definition sql_insert :: "conflict_clause \<Rightarrow> order \<Rightarrow> ledger \<Rightarrow> sql_error + ledger" where
  "sql_insert c r L =
     (if unique_conflict r L
      then (case c of OR_ABORT \<Rightarrow> Inl SQLITE_CONSTRAINT | OR_IGNORE \<Rightarrow> Inr L)
      else Inr (L @ [r]))"

text \<open>The table invariant the constraint maintains.\<close>

definition unique_refs :: "ledger \<Rightarrow> bool" where
  "unique_refs L = distinct (refs L)"

text \<open>
  The argument object of \<open>createDraftOrder\<close>.
\<close>

record draft =
  paymentId :: "string option"
  cartItems :: "cart_item list option"
  customer :: "js_customer option"
  usdTotalCents :: jsval
  koboTotal :: jsval
  supplierTotal :: jsval
  profitCents :: jsval

text \<open>
  \<^verbatim>\<open>const local_order_id = "o" + Date.now();
  await db.run(`INSERT OR IGNORE INTO orders (...) VALUES (?,?,?,?,?,?,?,?,?,?,?,?)`,
    local_order_id, paymentId, "pending", customer?.name || "", customer?.email || "",
    customer?.phone || "", customer?.address || "", JSON.stringify(cartItems || []),
    usdTotalCents ?? 0, koboTotal ?? 0, supplierTotal ?? 0, profitCents ?? 0);
  return local_order_id;\<close>
  \<open>now\<close> is the clock in milliseconds: \<open>Date.now()\<close> reads it, and \<open>CURRENT_TIMESTAMP\<close>
  (the default of \<open>created_at\<close>) is its seconds. \<open>supplier_response\<close> and \<open>processed_at\<close> are
  not listed and start as \<open>NULL\<close>.
\<close>

definition draft_row :: "nat \<Rightarrow> draft \<Rightarrow> order" where
  "draft_row now d =
     \<lparr> local_order_id = ''o'' @ string_of_nat now,
       payment_id = paymentId d,
       status = ''pending'',
       customer_name = str_or (opt_field (customer d) name) [],
       customer_email = str_or (opt_field (customer d) email) [],
       customer_phone = str_or (opt_field (customer d) phone) [],
       customer_address = str_or (opt_field (customer d) address) [],
       items_json = (case cartItems d of None \<Rightarrow> [] | Some xs \<Rightarrow> xs),
       total_cents_usd = js_nullish (usdTotalCents d) (Num 0),
       total_kobo_ngn = js_nullish (koboTotal d) (Num 0),
       supplier_share_cents = js_nullish (supplierTotal d) (Num 0),
       profit_cents = js_nullish (profitCents d) (Num 0),
       supplier_response = None,
       created_at = now div 1000,
       processed_at = None \<rparr>"

definition createDraftOrder :: "nat \<Rightarrow> draft \<Rightarrow> ledger \<Rightarrow> sql_error + (string \<times> ledger)" where
  "createDraftOrder now d L =
     (case sql_insert OR_IGNORE (draft_row now d) L of
        Inl e \<Rightarrow> Inl e
      | Inr L' \<Rightarrow> Inr (''o'' @ string_of_nat now, L'))"

text \<open>
  \<^verbatim>\<open>UPDATE orders SET status = ?, processed_at = CURRENT_TIMESTAMP WHERE payment_id = ?\<close>
  with \<open>"paid"\<close> and the reference bound: every row carrying the reference is updated,
  none when there is no such row.
\<close>

definition update_paid :: "nat \<Rightarrow> string \<Rightarrow> ledger \<Rightarrow> ledger" where
  "update_paid now reference L =
     map (\<lambda>r. if payment_id r = Some reference
              then r\<lparr>status := ''paid'', processed_at := Some (now div 1000)\<rparr>
              else r) L"

section \<open>Shipping fees\<close>

text \<open>
  \<^verbatim>\<open>const SHIPPING_FEES = { Lagos: 2000, Abuja: 2500, Rivers: 3000, Kano: 2800,
    Kaduna: 2500, Oyo: 2200, Ogun: 2000, Enugu: 2700, Anambra: 2700,
    default: 3500  // fallback if state not listed
  };\<close>
  The table is an object literal: besides its own properties it answers for the members
  it inherits from \<open>Object.prototype\<close>, which are functions or objects, not numbers.
\<close>

definition SHIPPING_FEES :: "(string \<times> rat) list" where
  "SHIPPING_FEES =
     [(''Lagos'', 2000), (''Abuja'', 2500), (''Rivers'', 3000), (''Kano'', 2800),
      (''Kaduna'', 2500), (''Oyo'', 2200), (''Ogun'', 2000), (''Enugu'', 2700),
      (''Anambra'', 2700), (''default'', 3500)]"

definition Object_prototype :: "string list" where
  "Object_prototype =
     [''constructor'', ''__proto__'', ''hasOwnProperty'', ''isPrototypeOf'',
      ''propertyIsEnumerable'', ''toLocaleString'', ''toString'', ''valueOf'',
      ''__defineGetter__'', ''__defineSetter__'', ''__lookupGetter__'',
      ''__lookupSetter__'']"

text \<open>
  What a property read \<open>SHIPPING_FEES[key]\<close> gives: an own number, an inherited member
  (named by its key), or \<open>undefined\<close>.
\<close>

datatype property = Fee rat | Inherited string | NoProperty

definition get_property :: "string \<Rightarrow> property" where
  "get_property k =
     (case map_of SHIPPING_FEES k of
        Some v \<Rightarrow> Fee v
      | None \<Rightarrow> if k \<in> set Object_prototype then Inherited k else NoProperty)"

text \<open>
  \<^verbatim>\<open>function getShippingFee(state) {
    return SHIPPING_FEES[state] || SHIPPING_FEES.default;
  }\<close>
  An absent state is the key \<open>"undefined"\<close>. A number is truthy unless it is zero; a
  function or an object is always truthy.
\<close>

definition getShippingFee :: "string option \<Rightarrow> property" where
  "getShippingFee st =
     (case get_property (case st of None \<Rightarrow> ''undefined'' | Some s \<Rightarrow> s) of
        Fee v \<Rightarrow> if v \<noteq> 0 then Fee v else get_property ''default''
      | Inherited k \<Rightarrow> Inherited k
      | NoProperty \<Rightarrow> get_property ''default'')"

section \<open>Responses, gateways and configuration\<close>

text \<open>
  A value in a JSON response body. \<open>JText n k\<close> is the string that \<open>+\<close> builds from the
  number \<open>n\<close> and the inherited member \<open>k\<close>; \<open>JRaw\<close> is a gateway payload passed through.
\<close>

datatype jfield =
    JBool bool
  | JStr string
  | JStrOpt "string option"
  | JNum jsval
  | JText jsval string
  | JRaw string

text \<open>
  \<open>Json c b\<close> is \<open>res.status(c).json(b)\<close> (200 when no status is set), \<open>Send\<close> is
  \<open>res.status(c).send(text)\<close>, \<open>End\<close> is \<open>res.status(c).end()\<close>, and \<open>Uncaught\<close> is an
  exception that leaves the route and is answered by the framework.
\<close>

datatype response =
    Json nat "(string \<times> jfield) list"
  | Send nat string
  | End nat
  | Uncaught string

text \<open>The outbound calls a handler makes, in order.\<close>

datatype gateway_call =
    RateLookup
  | PaystackInitialize string jsval
  | PaystackVerify string
  | OpayCreateInvoice string jsval
  | StripeCreateIntent jsval "jsval option"

text \<open>
  What an outbound call gives back: \<open>Inl\<close> the message of the exception it threw,
  \<open>Inr\<close> what it returned.
\<close>

type_synonym 'a outcome = "string + 'a"

record env =
  EXCHANGE_RATE_API_KEY :: "string option"
  OPAY_SECRET_KEY :: "string option"
  SUPPLIER_STRIPE_ACCOUNT :: "string option"
  STRIPE_WEBHOOK_SECRET :: "string option"

text \<open>
  \<^verbatim>\<open>async function fetchUsdToNgnRate() {
    const apiKey = process.env.EXCHANGE_RATE_API_KEY;
    if (!apiKey) throw new Error("Missing EXCHANGE_RATE_API_KEY");
    const resp = await axios.get(...);
    const rate = resp.data?.conversion_rates?.NGN;
    if (!rate) throw new Error("Could not get NGN rate");
    return rate;
  }\<close>
  The second argument is the outcome of the lookup, already reduced to the \<open>NGN\<close> field.
\<close>

definition fetchUsdToNgnRate :: "env \<Rightarrow> jsval outcome \<Rightarrow> jsval outcome \<times> gateway_call list" where
  "fetchUsdToNgnRate e resp =
     (if \<not> configured (EXCHANGE_RATE_API_KEY e) then (Inl ''Missing EXCHANGE_RATE_API_KEY'', [])
      else case resp of
             Inl m \<Rightarrow> (Inl m, [RateLookup])
           | Inr rate \<Rightarrow>
               if \<not> truthy rate then (Inl ''Could not get NGN rate'', [RateLookup])
               else (Inr rate, [RateLookup]))"

text \<open>
  The error answers \<open>res.status(code).json({ success: false, key: message })\<close>. Where the
  exception is a \<open>TypeError\<close> raised by reading a field of \<open>undefined\<close>, its message is
  written \<open>TypeError\<close>.
\<close>

definition failure :: "nat \<Rightarrow> string \<Rightarrow> string \<Rightarrow> response" where
  "failure code key m = Json code [(''success'', JBool False), (key, JStr m)]"

section \<open>Paystack checkout (server.js)\<close>

text \<open>
  What \<open>transaction/initialize\<close> returned under \<open>response.data.data\<close>.
\<close>

record paystack_init =
  init_reference :: "string option"
  init_authorization_url :: "string option"

text \<open>
  \<^verbatim>\<open>let ngnTotal = 0;
  for (const it of cartItems) {
    const price = Number(it.price) || 0;
    const qty = parseInt(it.quantity || 1, 10);
    ngnTotal += price * qty;
  }\<close>
\<close>

fun paystack_total :: "cart_item list \<Rightarrow> jsval \<Rightarrow> jsval" where
  "paystack_total [] ngnTotal = ngnTotal"
| "paystack_total (it # rest) ngnTotal =
     paystack_total rest
       (js_add ngnTotal
          (js_mul (js_or (ToNumber (price it)) (Num 0))
                  (parseInt10 (js_or (quantity it) (Num 1)))))"

text \<open>
  \<^verbatim>\<open>ngnTotal += shippingFee;\<close> adds a number; with an inherited member on the right it
  builds a string instead.
\<close>

definition add_shipping :: "jsval \<Rightarrow> property \<Rightarrow> jfield" where
  "add_shipping ngnTotal fee =
     (case fee of
        Fee v \<Rightarrow> JNum (js_add ngnTotal (Num v))
      | Inherited k \<Rightarrow> JText ngnTotal k
      | NoProperty \<Rightarrow> JNum NaN)"

text \<open>
  \<^verbatim>\<open>const totalKobo = Math.round(ngnTotal * 100);\<close> The string built from an inherited
  member is not a numeric literal: its product is \<open>NaN\<close>.
\<close>

definition to_kobo :: "jfield \<Rightarrow> jsval" where
  "to_kobo t = (case t of JNum n \<Rightarrow> Math_round (js_mul n (Num 100)) | _ \<Rightarrow> NaN)"

text \<open>
  The handler: an empty or missing cart answers 400; otherwise the total, the shipping
  fee, the amount in kobo, the initialize call, and after it the draft, with
  \<open>usdTotalCents: 0\<close>, \<open>supplierTotal: 0\<close> and \<open>profitCents: 0\<close>. An exception anywhere
  answers 500.
\<close>

definition cart_required :: response where
  "cart_required = failure 400 ''message'' ''cartItems required''"

definition createPaystackOrderHandler ::
  "nat \<Rightarrow> order_body \<Rightarrow> paystack_init option outcome \<Rightarrow> ledger
     \<Rightarrow> response \<times> ledger \<times> gateway_call list" where
  "createPaystackOrderHandler now body init L =
     (case body_cartItems body of
        None \<Rightarrow> (cart_required, L, [])
      | Some [] \<Rightarrow> (cart_required, L, [])
      | Some (it # rest) \<Rightarrow>
          let ngnTotal = add_shipping (paystack_total (it # rest) (Num 0))
                           (getShippingFee (opt_field (body_customer body) state));
              totalKobo = to_kobo ngnTotal;
              calls = [PaystackInitialize
                         (str_or (opt_field (body_customer body) email) ''guest@example.com'')
                         totalKobo]
          in case init of
               Inl m \<Rightarrow> (failure 500 ''error'' (str_or (Some m) ''Paystack request failed''), L, calls)
             | Inr None \<Rightarrow> (failure 500 ''error'' ''TypeError'', L, calls)
             | Inr (Some d) \<Rightarrow>
                 (case createDraftOrder now
                         \<lparr> paymentId = init_reference d,
                           cartItems = Some (it # rest),
                           customer = body_customer body,
                           usdTotalCents = Num 0,
                           koboTotal = totalKobo,
                           supplierTotal = Num 0,
                           profitCents = Num 0 \<rparr> L of
                    Inl e \<Rightarrow> (failure 500 ''error'' ''SQLITE_CONSTRAINT'', L, calls)
                  | Inr (lid, L') \<Rightarrow>
                      (Json 200
                         [(''success'', JBool True),
                          (''authorizationUrl'', JStrOpt (init_authorization_url d)),
                          (''reference'', JStrOpt (init_reference d)),
                          (''totalNgn'', ngnTotal),
                          (''totalKobo'', JNum totalKobo)],
                       L', calls)))"

section \<open>Paystack verification (server.js)\<close>

text \<open>What \<open>transaction/verify\<close> returned under \<open>verifyResp.data.data\<close>.\<close>

record paystack_tx =
  tx_status :: string
  tx_raw :: string

text \<open>
  \<^verbatim>\<open>const { reference } = req.query;
  if (!reference) return res.status(400).json({ success: false, message: "Reference required" });
  const verifyResp = await axios.get(`https://api.paystack.co/transaction/verify/${reference}`, ...);
  const data = verifyResp.data.data;
  if (data.status === "success") {
    await db.run(`UPDATE orders SET status = ?, processed_at = CURRENT_TIMESTAMP
                  WHERE payment_id = ?`, "paid", reference);
    return res.json({ success: true, message: "Payment verified", order: data });
  } else {
    return res.status(400).json({ success: false, message: "Payment failed" });
  }\<close>
  and any exception answers 500.
\<close>

definition verifyPaystackPayment ::
  "nat \<Rightarrow> string option \<Rightarrow> paystack_tx option outcome \<Rightarrow> ledger
     \<Rightarrow> response \<times> ledger \<times> gateway_call list" where
  "verifyPaystackPayment now reference verifyResp L =
     (case reference of
        None \<Rightarrow> (failure 400 ''message'' ''Reference required'', L, [])
      | Some r \<Rightarrow>
          if r = [] then (failure 400 ''message'' ''Reference required'', L, [])
          else case verifyResp of
                 Inl m \<Rightarrow> (failure 500 ''error'' m, L, [PaystackVerify r])
               | Inr None \<Rightarrow> (failure 500 ''error'' ''TypeError'', L, [PaystackVerify r])
               | Inr (Some d) \<Rightarrow>
                   if tx_status d = ''success''
                   then (Json 200
                           [(''success'', JBool True),
                            (''message'', JStr ''Payment verified''),
                            (''order'', JRaw (tx_raw d))],
                         update_paid now r L,
                         [PaystackVerify r])
                   else (failure 400 ''message'' ''Payment failed'', L, [PaystackVerify r]))"

section \<open>OPay checkout (server.js)\<close>

text \<open>
  \<^verbatim>\<open>let usdTotal = 0;
  let usdSupplierTotal = 0;
  for (const it of cartItems) {
    const price = toCents(it.price); // price in USD cents
    const cost = toCents(it.supplierCost || 0);
    const qty = parseInt(it.quantity || 1, 10);
    usdTotal += price * qty;
    usdSupplierTotal += cost * qty;
  }\<close>
\<close>

fun opay_totals :: "cart_item list \<Rightarrow> jsval \<times> jsval \<Rightarrow> jsval \<times> jsval" where
  "opay_totals [] acc = acc"
| "opay_totals (it # rest) (usdTotal, usdSupplierTotal) =
     opay_totals rest
       (js_add usdTotal
          (js_mul (toCents (price it)) (parseInt10 (js_or (quantity it) (Num 1)))),
        js_add usdSupplierTotal
          (js_mul (toCents (js_or (supplierCost it) (Num 0)))
                  (parseInt10 (js_or (quantity it) (Num 1)))))"

text \<open>
  The handler: the totals, the rate lookup, the kobo amount, the locally built
  reference, the signature (which needs \<open>OPAY_SECRET_KEY\<close>: \<open>createHmac\<close> throws on an
  undefined key), the invoice call, and then the draft with
  \<open>profitCents: usdTotal - usdSupplierTotal\<close>. No check stands between the totals and
  the outbound calls. The two readings of \<open>Date.now()\<close>, for the reference and for the
  local order id, fall in the same millisecond \<open>now\<close>.
\<close>

definition createOpayOrderHandler ::
  "env \<Rightarrow> nat \<Rightarrow> order_body \<Rightarrow> jsval outcome \<Rightarrow> string outcome \<Rightarrow> ledger
     \<Rightarrow> response \<times> ledger \<times> gateway_call list" where
  "createOpayOrderHandler e now body rateResp opayResp L =
     (case body_cartItems body of
        None \<Rightarrow> (cart_required, L, [])
      | Some [] \<Rightarrow> (cart_required, L, [])
      | Some (it # rest) \<Rightarrow>
          (case opay_totals (it # rest) (Num 0, Num 0) of
             (usdTotal, usdSupplierTotal) \<Rightarrow>
               (case fetchUsdToNgnRate e rateResp of
                  (Inl m, calls) \<Rightarrow> (failure 500 ''error'' m, L, calls)
                | (Inr usdToNgn, calls) \<Rightarrow>
                    let totalKobo =
                          Math_round (js_mul (js_mul (fromCents usdTotal) usdToNgn) (Num 100));
                        reference = ''opay_ref_'' @ string_of_nat now
                    in if OPAY_SECRET_KEY e = None
                       then (failure 500 ''error'' ''TypeError'', L, calls)
                       else case opayResp of
                              Inl m \<Rightarrow>
                                (failure 500 ''error'' m, L,
                                 calls @ [OpayCreateInvoice reference totalKobo])
                            | Inr payload \<Rightarrow>
                                (case createDraftOrder now
                                        \<lparr> paymentId = Some reference,
                                          cartItems = Some (it # rest),
                                          customer = body_customer body,
                                          usdTotalCents = usdTotal,
                                          koboTotal = totalKobo,
                                          supplierTotal = usdSupplierTotal,
                                          profitCents = js_sub usdTotal usdSupplierTotal \<rparr> L of
                                   Inl err \<Rightarrow>
                                     (failure 500 ''error'' ''SQLITE_CONSTRAINT'', L,
                                      calls @ [OpayCreateInvoice reference totalKobo])
                                 | Inr (lid, L') \<Rightarrow>
                                     (Json 200
                                        [(''success'', JBool True),
                                         (''data'', JRaw payload),
                                         (''reference'', JStr reference),
                                         (''totalKobo'', JNum totalKobo),
                                         (''rate'', JNum usdToNgn)],
                                      L', calls @ [OpayCreateInvoice reference totalKobo])))))"

section \<open>Payment intents and the webhook (ship.js)\<close>

text \<open>
  \<^verbatim>\<open>let total = 0;
  let supplierTotal = 0;
  for (const it of cartItems) {
    const price = parseInt(it.price, 10); // ensure cents (integer)
    const qty = parseInt(it.quantity || it.qty || 1, 10);
    const sup = parseInt(it.supplierCost || 0, 10); // supplier cost in cents
    total += price * qty;
    supplierTotal += sup * qty;
  }\<close>
  The accumulators \<open>total\<close> and \<open>supplierTotal\<close> are written \<open>tot\<close> and \<open>supTotal\<close>.
\<close>

fun intent_totals :: "cart_item list \<Rightarrow> jsval \<times> jsval \<Rightarrow> jsval \<times> jsval" where
  "intent_totals [] acc = acc"
| "intent_totals (it # rest) (tot, supTotal) =
     intent_totals rest
       (js_add tot
          (js_mul (parseInt10 (price it))
                  (parseInt10 (js_or (js_or (quantity it) (qty it)) (Num 1)))),
        js_add supTotal
          (js_mul (parseInt10 (js_or (supplierCost it) (Num 0)))
                  (parseInt10 (js_or (js_or (quantity it) (qty it)) (Num 1)))))"

text \<open>
  \<^verbatim>\<open>const profit = total - supplierTotal;
  if (profit < 0) {
    // prevent negative app fee
    return res.status(400).json({ success: false,
      message: 'Supplier cost exceeds customer price for items' });
  }\<close>
  then the intent is created, with \<open>application_fee_amount = profit\<close> when a supplier
  account is configured. This server keeps no orders table: the handler answers and
  records nothing.
\<close>

text \<open>
  Carts of integer amounts, as this route expects them (\<open>price (cents)\<close>,
  \<open>supplierCost (cents)\<close>): the price, supplier cost and quantity of each line. A
  quantity of 0 is falsy and counts as 1.
\<close>

fun cents_item :: "int \<times> int \<times> int \<Rightarrow> cart_item" where
  "cents_item (p, c, q) =
     \<lparr> price = Num (of_int p), supplierCost = Num (of_int c), quantity = Num (of_int q),
       qty = Undefined \<rparr>"

definition counted :: "int \<Rightarrow> int" where
  "counted q = (if q = 0 then 1 else q)"

text \<open>
  The carts on which the route's arithmetic is exact: every amount and quantity is of
  magnitude below \<open>2^53\<close>, and so are the sums of the absolute line totals. Every number
  the loop computes is then an integer that a double holds exactly.
\<close>

definition exact_cents :: "(int \<times> int \<times> int) list \<Rightarrow> bool" where
  "exact_cents xs =
     (list_all (\<lambda>(p, c, q). \<bar>p\<bar> < 9007199254740992 \<and> \<bar>c\<bar> < 9007199254740992 \<and>
                             \<bar>q\<bar> < 9007199254740992) xs \<and>
      (\<Sum>(p, c, q)\<leftarrow>xs. \<bar>p * counted q\<bar>) < 9007199254740992 \<and>
      (\<Sum>(p, c, q)\<leftarrow>xs. \<bar>c * counted q\<bar>) < 9007199254740992)"

definition create_payment_intent ::
  "env \<Rightarrow> order_body \<Rightarrow> string option outcome \<Rightarrow> response \<times> gateway_call list" where
  "create_payment_intent e body intent =
     (case body_cartItems body of
        None \<Rightarrow> (failure 400 ''message'' ''No cart items provided'', [])
      | Some [] \<Rightarrow> (failure 400 ''message'' ''No cart items provided'', [])
      | Some (it # rest) \<Rightarrow>
          (case intent_totals (it # rest) (Num 0, Num 0) of
             (tot, supTotal) \<Rightarrow>
               if js_lt (js_sub tot supTotal) (Num 0)
               then (failure 400 ''message'' ''Supplier cost exceeds customer price for items'', [])
               else
                 let fee = (if configured (SUPPLIER_STRIPE_ACCOUNT e)
                            then Some (js_sub tot supTotal) else None)
                 in case intent of
                      Inl m \<Rightarrow>
                        (failure 500 ''message'' (str_or (Some m) ''Internal error''),
                         [StripeCreateIntent tot fee])
                    | Inr client_secret \<Rightarrow>
                        (Json 200
                           [(''clientSecret'', JStrOpt client_secret),
                            (''amount'', JNum tot),
                            (''application_fee_amount'',
                               JNum (js_or (case fee of None \<Rightarrow> Undefined | Some f \<Rightarrow> f) (Num 0))),
                            (''supplier_share'', JNum supTotal)],
                         [StripeCreateIntent tot fee])))"

text \<open>
  A Stripe event as the webhook reads it: its \<open>type\<close>, and \<open>data.object\<close>, which is either
  missing or an object with an optional \<open>id\<close>.
\<close>

datatype event_object = Missing | PaymentIntent "string option"

record stripe_event =
  ev_type :: string
  ev_object :: event_object

text \<open>
  \<^verbatim>\<open>async function handleStripeEvent(event) {
    switch (event.type) {
      case 'payment_intent.succeeded':
        console.log('PaymentIntent succeeded:', event.data.object.id);
        break;
      case 'payment_intent.payment_failed':
        console.log('Payment failed:', event.data.object.id);
        break;
      default:
        console.log('Unhandled event type:', event.type);
    }
  }\<close>
  The result is the line logged, or the rejection when \<open>data.object\<close> cannot be read.
  Nothing else is done: no order is looked up.
\<close>

definition handleStripeEvent :: "stripe_event \<Rightarrow> string outcome" where
  "handleStripeEvent event =
     (if ev_type event = ''payment_intent.succeeded''
      then (case ev_object event of
              Missing \<Rightarrow> Inl ''TypeError''
            | PaymentIntent i \<Rightarrow> Inr ''PaymentIntent succeeded:'')
      else if ev_type event = ''payment_intent.payment_failed''
      then (case ev_object event of
              Missing \<Rightarrow> Inl ''TypeError''
            | PaymentIntent i \<Rightarrow> Inr ''Payment failed:'')
      else Inr ''Unhandled event type:'')"

text \<open>
  ship.js registers its body parsers in this order:
  \<^verbatim>\<open>app.use(express.json());
  app.use(bodyParser.raw({ type: 'application/json' })); // for webhook signature verification if needed
  ...
  app.post('/webhook', bodyParser.raw({ type: 'application/json' }), (req, res) => { ... });\<close>
  A body parser reads the body of a JSON request unless an earlier parser has read it
  already: \<open>express.json\<close> leaves the parsed object in \<open>req.body\<close>, \<open>bodyParser.raw\<close>
  leaves the bytes.
\<close>

datatype req_body = Unread | Buffer | ParsedObject

definition express_json :: "req_body \<Rightarrow> req_body" where
  "express_json b = (if b = Unread then ParsedObject else b)"

definition bodyParser_raw :: "req_body \<Rightarrow> req_body" where
  "bodyParser_raw b = (if b = Unread then Buffer else b)"

text \<open>
  A delivery from the gateway: a JSON request whose payload is the text of an event,
  with a signature header that is valid for the payload or not.
\<close>

record delivery =
  sent :: stripe_event
  signed :: bool

text \<open>
  \<open>JSON.parse(req.body.toString())\<close>: the bytes print as the payload, which parses to the
  event; an object prints as \<open>[object Object]\<close>, which is not JSON.
\<close>

definition parse_body :: "req_body \<Rightarrow> delivery \<Rightarrow> stripe_event outcome" where
  "parse_body b d =
     (case b of
        Buffer \<Rightarrow> Inr (sent d)
      | ParsedObject \<Rightarrow> Inl ''SyntaxError''
      | Unread \<Rightarrow> Inl ''TypeError'')"

text \<open>
  \<open>stripe.webhooks.constructEvent(req.body, sig, webhookSecret)\<close>: the signature is
  checked against the raw payload; anything but the raw payload is refused.
\<close>

definition constructEvent :: "req_body \<Rightarrow> delivery \<Rightarrow> stripe_event outcome" where
  "constructEvent b d =
     (case b of
        Buffer \<Rightarrow> if signed d then Inr (sent d) else Inl ''No signatures found''
      | ParsedObject \<Rightarrow> Inl ''Payload was provided as a parsed object''
      | Unread \<Rightarrow> Inl ''No webhook payload was provided'')"

text \<open>
  \<^verbatim>\<open>handleStripeEvent(event).then(() => res.json({ received: true }))
                          .catch(e => { console.error(e); res.status(500).end(); });\<close>
\<close>

definition acknowledge :: "string outcome \<Rightarrow> response" where
  "acknowledge r = (case r of Inl m \<Rightarrow> End 500 | Inr l \<Rightarrow> Json 200 [(''received'', JBool True)])"

text \<open>
  The route, given the \<open>req.body\<close> it finds. Without \<open>STRIPE_WEBHOOK_SECRET\<close> the body is
  parsed and handled unverified (a parse error is thrown out of the route); with it, a
  failed signature check answers 400.
\<close>

definition webhook_route :: "env \<Rightarrow> req_body \<Rightarrow> delivery \<Rightarrow> response" where
  "webhook_route e b d =
     (if \<not> configured (STRIPE_WEBHOOK_SECRET e)
      then (case parse_body b d of
              Inl m \<Rightarrow> Uncaught m
            | Inr event \<Rightarrow> acknowledge (handleStripeEvent event))
      else (case constructEvent b d of
              Inl m \<Rightarrow> Send 400 (''Webhook Error: '' @ m)
            | Inr event \<Rightarrow> acknowledge (handleStripeEvent event)))"

text \<open>\<open>POST /webhook\<close>: the three parsers in the order of registration, then the route.\<close>

definition webhook :: "env \<Rightarrow> delivery \<Rightarrow> response" where
  "webhook e d = webhook_route e (bodyParser_raw (bodyParser_raw (express_json Unread))) d"

section \<open>The system: requests against the ledger\<close>

text \<open>
  The routes that take part in checkout and reconciliation, each with the outcomes of
  the outbound calls it makes. The remaining routes of server.js read the orders or
  work on the products table; the remaining routes of ship.js (its own Paystack pair
  and \<open>/api/place-order\<close>) keep their records in a JSON file that has neither a status
  nor a \<open>processed_at\<close> field, and never touch the orders table.
\<close>

datatype request =
    CreatePaystackOrder order_body "paystack_init option outcome"
  | CreateOpayOrder order_body "jsval outcome" "string outcome"
  | PaystackCallback "string option" "paystack_tx option outcome"
  | CreatePaymentIntent order_body "string option outcome"
  | Webhook delivery

fun handle :: "env \<Rightarrow> nat \<Rightarrow> request \<Rightarrow> ledger \<Rightarrow> response \<times> ledger \<times> gateway_call list" where
  "handle e now (CreatePaystackOrder body init) L = createPaystackOrderHandler now body init L"
| "handle e now (CreateOpayOrder body rateResp opayResp) L =
     createOpayOrderHandler e now body rateResp opayResp L"
| "handle e now (PaystackCallback reference verifyResp) L =
     verifyPaystackPayment now reference verifyResp L"
| "handle e now (CreatePaymentIntent body intent) L =
     (case create_payment_intent e body intent of (res, calls) \<Rightarrow> (res, L, calls))"
| "handle e now (Webhook rq) L = (webhook e rq, L, [])"

text \<open>The ledger a request leaves behind.\<close>

definition ledger_after :: "env \<Rightarrow> nat \<Rightarrow> request \<Rightarrow> ledger \<Rightarrow> ledger" where
  "ledger_after e now rq L = fst (snd (handle e now rq L))"

text \<open>A run: requests with their arrival times, handled one after the other.\<close>

fun run :: "env \<Rightarrow> (nat \<times> request) list \<Rightarrow> ledger \<Rightarrow> ledger" where
  "run e [] L = L"
| "run e ((now, rq) # rest) L = run e rest (ledger_after e now rq L)"

text \<open>
  The reference a request confirms: a verification call with a non-empty reference for
  which the gateway reports \<open>success\<close>.
\<close>

fun confirms :: "request \<Rightarrow> string option" where
  "confirms (PaystackCallback (Some r) (Inr (Some d))) =
     (if r \<noteq> [] \<and> tx_status d = ''success'' then Some r else None)"
| "confirms _ = None"

section \<open>Concrete requests\<close>

text \<open>
  The cart of the end-to-end scenario, \<open>[{price: 10.00, supplierCost: 6.00,
  quantity: 2}]\<close>, a customer in Abuja, and a successful answer of the gateway.
\<close>

definition abuja_cart :: "cart_item list" where
  "abuja_cart = [\<lparr> price = Num 10, supplierCost = Num 6, quantity = Num 2, qty = Undefined \<rparr>]"

definition abuja_body :: order_body where
  "abuja_body =
     \<lparr> body_cartItems = Some abuja_cart,
       body_customer = Some \<lparr> name = Some ''Ada'', email = Some ''ada@example.com'',
                               phone = None, address = None, state = Some ''Abuja'' \<rparr> \<rparr>"

definition ref1_init :: paystack_init where
  "ref1_init = \<lparr> init_reference = Some ''ref1'', init_authorization_url = Some ''https://pay'' \<rparr>"

definition tx_success :: paystack_tx where
  "tx_success = \<lparr> tx_status = ''success'', tx_raw = ''{}'' \<rparr>"

text \<open>A cart sold at a loss: one item priced 1.00 that costs the supplier 2.00.\<close>

definition loss_cart :: "cart_item list" where
  "loss_cart = [\<lparr> price = Num 1, supplierCost = Num 2, quantity = Num 1, qty = Undefined \<rparr>]"

definition loss_body :: order_body where
  "loss_body = \<lparr> body_cartItems = Some loss_cart, body_customer = None \<rparr>"

text \<open>The same loss with amounts in cents, as the payment-intent route expects them.\<close>

definition loss_cents_body :: order_body where
  "loss_cents_body =
     \<lparr> body_cartItems =
         Some [\<lparr> price = Num 100, supplierCost = Num 200, quantity = Num 1, qty = Undefined \<rparr>],
       body_customer = None \<rparr>"

definition all_keys :: env where
  "all_keys =
     \<lparr> EXCHANGE_RATE_API_KEY = Some ''rate-key'', OPAY_SECRET_KEY = Some ''opay-key'',
       SUPPLIER_STRIPE_ACCOUNT = Some ''acct_1'', STRIPE_WEBHOOK_SECRET = Some ''whsec'' \<rparr>"

definition no_webhook_secret :: env where
  "no_webhook_secret = all_keys \<lparr> STRIPE_WEBHOOK_SECRET := None \<rparr>"

text \<open>
  Two drafts under the same reference, with different content. The first is the draft
  that the Paystack checkout builds for the Abuja request.
\<close>

definition draft_a :: draft where
  "draft_a =
     \<lparr> paymentId = Some ''ref1'', cartItems = Some abuja_cart,
       customer = body_customer abuja_body,
       usdTotalCents = Num 0, koboTotal = Num 252000, supplierTotal = Num 0,
       profitCents = Num 0 \<rparr>"

definition draft_b :: draft where
  "draft_b =
     \<lparr> paymentId = Some ''ref1'', cartItems = Some loss_cart, customer = None,
       usdTotalCents = Num 100, koboTotal = Num 150000, supplierTotal = Num 200,
       profitCents = Num (- 100) \<rparr>"

text \<open>
  Two webhook deliveries: an event of a type the handler does not know, and a correctly
  signed \<open>payment_intent.succeeded\<close> event for an intent that no order refers to.
\<close>

definition unknown_delivery :: delivery where
  "unknown_delivery =
     \<lparr> sent = \<lparr> ev_type = ''charge.refunded'', ev_object = Missing \<rparr>, signed = True \<rparr>"

definition succeeded_delivery :: delivery where
  "succeeded_delivery =
     \<lparr> sent = \<lparr> ev_type = ''payment_intent.succeeded'',
                  ev_object = PaymentIntent (Some ''pi_1'') \<rparr>,
       signed = True \<rparr>"

text \<open>
  A draft is created under \<open>ref1\<close> and the gateway then confirms the payment; later the
  same confirmation arrives once more.
\<close>

definition confirm_ref1 :: request where
  "confirm_ref1 = PaystackCallback (Some ''ref1'') (Inr (Some tx_success))"

definition paid_trace :: "(nat \<times> request) list" where
  "paid_trace =
     [(1000000, CreatePaystackOrder abuja_body (Inr (Some ref1_init))),
      (2000000, confirm_ref1)]"

text \<open>
  A cart sold at a loss only through a line whose quantity is 0 and so counts once:
  2 at 1000 (cost 300) and one at 500 (cost 2000).
\<close>

definition mixed_lines :: "(int \<times> int \<times> int) list" where
  "mixed_lines = [(1000, 300, 2), (500, 2000, 0)]"

section \<open>Unit inference at the boundary\<close>

lemma isInteger_of_int [simp]: "isInteger (of_int k)"
  by (simp add: isInteger_def)

lemma toCents_int:
  "toCents (Num (of_int k)) = (if 1000 < k then Num (of_int k) else Num (of_int (k * 100)))"
proof -
  have "\<lfloor>(of_int k :: rat) * 100 + 1 / 2\<rfloor> = k * 100"
    by linarith
  then show ?thesis
    by (simp add: toCents_def Math_round_def)
qed

text \<open>
  Claim C10. The integer 1000 is not strictly greater than 1000, so \<open>toCents\<close> treats it
  as a major-unit amount and returns 100000; 1001 takes the already-cents branch and is
  returned unchanged.
\<close>

theorem toCents_boundary:
  "toCents (Num 1000) = Num 100000 \<and> toCents (Num 1001) = Num 1001"
  using toCents_int [of 1000] toCents_int [of 1001] by simp

lemma fromCents_hundreds: "fromCents (Num (of_int (100 * k))) = Num (of_int k)"
  by (simp add: fromCents_def js_or_def)

text \<open>
  Claim C5, as the code has it. On an integer \<open>x\<close> divisible by 100, \<open>fromCents\<close> gives the
  integer \<open>x / 100\<close>; \<open>toCents\<close> multiplies it back by 100 only while it is at most 1000,
  that is while \<open>x \<le> 100000\<close>. Above that the quotient is itself an integer greater than
  1000, taken for an amount already in cents, and returned as it is.
\<close>

theorem toCents_fromCents_hundreds:
  "100 dvd x \<Longrightarrow>
   toCents (fromCents (Num (of_int x))) =
     (if x \<le> 100000 then Num (of_int x) else Num (of_int (x div 100)))"
proof -
  assume "100 dvd x"
  then obtain k where k: "x = 100 * k" ..
  have "toCents (fromCents (Num (of_int x))) = toCents (Num (of_int k))"
    unfolding k by (simp only: fromCents_hundreds)
  also have "\<dots> = (if 1000 < k then Num (of_int k) else Num (of_int (k * 100)))"
    by (rule toCents_int)
  finally show ?thesis
    by (simp add: k mult.commute)
qed

theorem toCents_fromCents_hundreds_witness:
  "100 dvd (2000 :: int) \<and> toCents (fromCents (Num (of_int 2000))) = Num (of_int 2000) \<and>
   100 dvd (200000 :: int) \<and> toCents (fromCents (Num (of_int 200000))) = Num (of_int 2000)"
  using toCents_fromCents_hundreds [of 2000] toCents_fromCents_hundreds [of 200000]
  by simp

text \<open>
  The round trip is not the identity on every multiple of 100 above 1000: 100100 cents
  are 1001 dollars, and \<open>toCents\<close> returns 1001.
\<close>

theorem toCents_fromCents_counterexample:
  "100 dvd (100100 :: int) \<and> (1000 :: int) < 100100 \<and>
   toCents (fromCents (Num (of_int 100100))) = Num 1001 \<and>
   toCents (fromCents (Num (of_int 100100))) \<noteq> Num (of_int 100100)"
proof -
  have "fromCents (Num (of_int (100 * 1001))) = Num (of_int 1001)"
    by (rule fromCents_hundreds)
  then have "toCents (fromCents (Num (of_int 100100))) = toCents (Num (of_int 1001))"
    by simp
  then show ?thesis
    using toCents_int [of 1001] by simp
qed

section \<open>Shipping fee lookup\<close>

lemma get_property_default: "get_property ''default'' = Fee 3500"
  by (simp add: get_property_def SHIPPING_FEES_def)

lemma SHIPPING_FEES_nonzero: "map_of SHIPPING_FEES k = Some v \<Longrightarrow> v \<noteq> 0"
  by (auto simp: SHIPPING_FEES_def split: if_splits)

text \<open>
  For a region that is not the name of an inherited member the lookup gives a fee: the
  listed one, or 3500.
\<close>

lemma get_property_plain_key:
  "k \<notin> set Object_prototype \<Longrightarrow>
   get_property k = (case map_of SHIPPING_FEES k of None \<Rightarrow> NoProperty | Some v \<Rightarrow> Fee v)"
  by (simp add: get_property_def split: option.splits)

lemma getShippingFee_plain_key:
  "k \<notin> set Object_prototype \<Longrightarrow>
   getShippingFee (Some k) = Fee (case map_of SHIPPING_FEES k of None \<Rightarrow> 3500 | Some v \<Rightarrow> v)"
  using SHIPPING_FEES_nonzero [of k]
  by (simp add: getShippingFee_def get_property_plain_key get_property_default
           split: option.splits)

text \<open>
  Claim C6, evaluated. Lagos costs 2000, an unknown or missing region 3500; the region
  \<open>"constructor"\<close> is answered with the constructor function inherited from
  \<open>Object.prototype\<close>, which is truthy and so returned instead of the default.
\<close>

theorem getShippingFee_inherited_member:
  "getShippingFee (Some ''Lagos'') = Fee 2000 \<and>
   getShippingFee (Some ''Unknown-Region'') = Fee 3500 \<and>
   getShippingFee None = Fee 3500 \<and>
   getShippingFee (Some ''constructor'') = Inherited ''constructor''"
  by (simp add: getShippingFee_def get_property_def SHIPPING_FEES_def Object_prototype_def)

section \<open>The end-to-end scenario\<close>

lemma Math_round_of_int [simp]: "Math_round (Num (of_int k)) = Num (of_int k)"
proof -
  have "\<lfloor>(of_int k :: rat) + 1 / 2\<rfloor> = k"
    by linarith
  then show ?thesis
    by (simp add: Math_round_def)
qed

lemma Math_round_numeral [simp]: "Math_round (Num (numeral n)) = Num (numeral n)"
  using Math_round_of_int [of "numeral n"] by (simp del: Math_round_of_int)

lemma parseInt10_numeral [simp]:
  "numeral n < (1000000000000000000000 :: rat) \<Longrightarrow> parseInt10 (Num (numeral n)) = Num (numeral n)"
  by (simp add: plain_decimal_def)

lemma parseInt10_one [simp]: "parseInt10 (Num 1) = Num 1"
  by (simp add: plain_decimal_def)

declare parseInt10.simps(1) [simp del]

lemma js_arith_Num [simp]:
  "js_add (Num a) (Num b) = Num (a + b)"
  "js_sub (Num a) (Num b) = Num (a - b)"
  "js_mul (Num a) (Num b) = Num (a * b)"
  by (simp_all add: js_add_def js_sub_def js_mul_def)

lemma js_or_numeral [simp]: "js_or (Num (numeral n)) b = Num (numeral n)"
  by (simp add: js_or_def)

lemma js_or_falsy [simp]:
  "js_or Undefined b = b" "js_or Null b = b" "js_or NaN b = b" "js_or (Num 0) b = b"
  by (simp_all add: js_or_def)

lemma toCents_small:
  "toCents (Num 1) = Num 100" "toCents (Num 2) = Num 200"
  "toCents (Num 6) = Num 600" "toCents (Num 10) = Num 1000"
  using toCents_int [of 1] toCents_int [of 2] toCents_int [of 6] toCents_int [of 10]
  by simp_all

lemma createDraftOrder_eq:
  "createDraftOrder now d L =
     Inr (''o'' @ string_of_nat now,
          if unique_conflict (draft_row now d) L then L else L @ [draft_row now d])"
  by (simp add: createDraftOrder_def sql_insert_def)

lemma unique_conflict_Nil [simp]: "\<not> unique_conflict r []"
  by (simp add: unique_conflict_def refs_def split: option.splits)

lemma abuja_paystack_total: "paystack_total abuja_cart (Num 0) = Num 20"
  by (simp add: abuja_cart_def)

lemma abuja_shipping: "getShippingFee (Some ''Abuja'') = Fee 2500"
  by (simp add: getShippingFee_def get_property_def SHIPPING_FEES_def)

lemma abuja_paystack_handler:
  "createPaystackOrderHandler now abuja_body (Inr (Some ref1_init)) [] =
     (Json 200
        [(''success'', JBool True),
         (''authorizationUrl'', JStrOpt (Some ''https://pay'')),
         (''reference'', JStrOpt (Some ''ref1'')),
         (''totalNgn'', JNum (Num 2520)),
         (''totalKobo'', JNum (Num 252000))],
      [draft_row now
         \<lparr> paymentId = Some ''ref1'', cartItems = Some abuja_cart,
           customer = body_customer abuja_body, usdTotalCents = Num 0,
           koboTotal = Num 252000, supplierTotal = Num 0, profitCents = Num 0 \<rparr>],
      [PaystackInitialize ''ada@example.com'' (Num 252000)])"
proof -
  have cart: "body_cartItems abuja_body = Some abuja_cart"
    and st: "opt_field (body_customer abuja_body) state = Some ''Abuja''"
    and em: "opt_field (body_customer abuja_body) email = Some ''ada@example.com''"
    by (simp_all add: abuja_body_def opt_field_def)
  obtain it rest where split: "abuja_cart = it # rest"
    by (simp add: abuja_cart_def)
  have tot: "paystack_total (it # rest) (Num 0) = Num 20"
    using abuja_paystack_total by (simp only: split)
  show ?thesis
    unfolding createPaystackOrderHandler_def cart split list.case option.case Let_def tot
    by (simp add: st em abuja_shipping add_shipping_def to_kobo_def str_or_def
          createDraftOrder_eq ref1_init_def split [symmetric])
qed

lemma abuja_opay_totals: "opay_totals abuja_cart (Num 0, Num 0) = (Num 2000, Num 1200)"
  by (simp add: abuja_cart_def toCents_small)

lemma fromCents_2000: "fromCents (Num 2000) = Num 20"
  by (simp add: fromCents_def)

text \<open>
  The OPay checkout on the same cart, at a rate of 1500 naira to the dollar, for any
  customer: 2000 cents are 20 dollars, 30000 naira, 3000000 kobo.
\<close>

lemma abuja_opay_handler:
  "createOpayOrderHandler all_keys now
     \<lparr> body_cartItems = Some abuja_cart, body_customer = cu \<rparr>
     (Inr (Num 1500)) (Inr payload) [] =
     (Json 200
        [(''success'', JBool True),
         (''data'', JRaw payload),
         (''reference'', JStr (''opay_ref_'' @ string_of_nat now)),
         (''totalKobo'', JNum (Num 3000000)),
         (''rate'', JNum (Num 1500))],
      [draft_row now
         \<lparr> paymentId = Some (''opay_ref_'' @ string_of_nat now), cartItems = Some abuja_cart,
           customer = cu, usdTotalCents = Num 2000, koboTotal = Num 3000000,
           supplierTotal = Num 1200, profitCents = Num 800 \<rparr>],
      [RateLookup, OpayCreateInvoice (''opay_ref_'' @ string_of_nat now) (Num 3000000)])"
proof -
  obtain it rest where split: "abuja_cart = it # rest"
    by (simp add: abuja_cart_def)
  have tot: "opay_totals (it # rest) (Num 0, Num 0) = (Num 2000, Num 1200)"
    using abuja_opay_totals by (simp only: split)
  have rate: "fetchUsdToNgnRate all_keys (Inr (Num 1500)) = (Inr (Num 1500), [RateLookup])"
    by (simp add: fetchUsdToNgnRate_def all_keys_def configured_def)
  have key: "OPAY_SECRET_KEY all_keys \<noteq> None"
    by (simp add: all_keys_def)
  show ?thesis
    unfolding createOpayOrderHandler_def order_body.simps split list.case option.case tot
      prod.case rate Let_def
    using key
    by (simp add: fromCents_2000 createDraftOrder_eq)
qed

text \<open>
  Claim C4, as the code has it. The Paystack checkout reads the prices as naira: the
  cart totals 20, the Abuja fee of 2500 is added to that, and 2520 naira are charged as
  252000 kobo; the draft records no supplier share and no profit. The figures 2000,
  1200 and 800 are what the OPay checkout computes and records for the same cart, in
  cents; it invoices the converted total alone, 3000000 kobo at a rate of 1500,
  whatever the customer's region: no shipping fee is added.
\<close>

theorem abuja_checkout:
  "paystack_total abuja_cart (Num 0) = Num 20 \<and>
   getShippingFee (Some ''Abuja'') = Fee 2500 \<and>
   map (\<lambda>r. (total_cents_usd r, total_kobo_ngn r, supplier_share_cents r, profit_cents r))
       (fst (snd (createPaystackOrderHandler now abuja_body (Inr (Some ref1_init)) [])))
     = [(Num 0, Num 252000, Num 0, Num 0)] \<and>
   snd (snd (createPaystackOrderHandler now abuja_body (Inr (Some ref1_init)) []))
     = [PaystackInitialize ''ada@example.com'' (Num 252000)] \<and>
   opay_totals abuja_cart (Num 0, Num 0) = (Num 2000, Num 1200) \<and>
   map (\<lambda>r. (total_cents_usd r, total_kobo_ngn r, supplier_share_cents r, profit_cents r))
       (fst (snd (createOpayOrderHandler all_keys now
                    \<lparr> body_cartItems = Some abuja_cart, body_customer = cu \<rparr>
                    (Inr (Num 1500)) (Inr payload) [])))
     = [(Num 2000, Num 3000000, Num 1200, Num 800)] \<and>
   snd (snd (createOpayOrderHandler all_keys now
               \<lparr> body_cartItems = Some abuja_cart, body_customer = cu \<rparr>
               (Inr (Num 1500)) (Inr payload) []))
     = [RateLookup, OpayCreateInvoice (''opay_ref_'' @ string_of_nat now) (Num 3000000)]"
  by (simp add: abuja_paystack_handler abuja_paystack_total abuja_shipping abuja_opay_handler
        abuja_opay_totals draft_row_def)

text \<open>
  The scenario's figures are not what the Paystack checkout produces: the pre-shipping
  total is 20, not 2000; the amount charged is 252000, not 4500; supplier share and
  profit are recorded as 0, not 1200 and 800.
\<close>

theorem abuja_checkout_counterexample:
  "paystack_total abuja_cart (Num 0) \<noteq> Num 2000 \<and>
   map total_kobo_ngn
       (fst (snd (createPaystackOrderHandler 1700000000000 abuja_body (Inr (Some ref1_init)) [])))
     \<noteq> [Num 4500] \<and>
   map supplier_share_cents
       (fst (snd (createPaystackOrderHandler 1700000000000 abuja_body (Inr (Some ref1_init)) [])))
     \<noteq> [Num 1200] \<and>
   map profit_cents
       (fst (snd (createPaystackOrderHandler 1700000000000 abuja_body (Inr (Some ref1_init)) [])))
     \<noteq> [Num 800]"
  by (simp add: abuja_paystack_handler abuja_paystack_total draft_row_def)

section \<open>Draft creation is idempotent\<close>

lemma refs_Cons:
  "refs (x # L) = (case payment_id x of None \<Rightarrow> refs L | Some p \<Rightarrow> p # refs L)"
  by (simp add: refs_def split: option.splits)

lemma refs_append: "refs (L @ M) = refs L @ refs M"
  by (induction L) (simp_all add: refs_Cons refs_def split: option.splits)

lemma refs_single: "refs [x] = (case payment_id x of None \<Rightarrow> [] | Some p \<Rightarrow> [p])"
  by (simp add: refs_Cons refs_def split: option.splits)

lemma mem_refs: "p \<in> set (refs L) \<longleftrightarrow> Some p \<in> payment_id ` set L"
  by (induction L) (auto simp: refs_Cons refs_def split: option.splits)

text \<open>Under the table invariant a reference names at most one row.\<close>

lemma rows_of_reference:
  "unique_refs L \<Longrightarrow>
   length (filter (\<lambda>x. payment_id x = Some p) L) = (if p \<in> set (refs L) then 1 else 0)"
proof (induction L)
  case Nil
  then show ?case by (simp add: refs_def)
next
  case (Cons x L)
  then have "unique_refs L"
    by (simp add: unique_refs_def refs_Cons split: option.splits)
  with Cons show ?case
    by (auto simp: unique_refs_def refs_Cons split: option.splits)
qed

lemma payment_id_draft_row [simp]: "payment_id (draft_row now d) = paymentId d"
  by (simp add: draft_row_def)

lemma status_draft_row [simp]: "status (draft_row now d) = ''pending''"
  by (simp add: draft_row_def)

lemma processed_at_draft_row [simp]: "processed_at (draft_row now d) = None"
  by (simp add: draft_row_def)

text \<open>\<open>INSERT OR IGNORE\<close> keeps the table invariant.\<close>

lemma unique_refs_insert:
  "unique_refs L \<Longrightarrow> \<not> unique_conflict x L \<Longrightarrow> unique_refs (L @ [x])"
  by (auto simp: unique_refs_def unique_conflict_def refs_append refs_single
           split: option.splits)

text \<open>
  Claim C1. On a table that satisfies the uniqueness constraint, two calls of
  \<open>createDraftOrder\<close> with the same payment reference \<open>r\<close> both succeed; the second
  returns the ledger exactly as the first left it, so no row is added and no field of
  any row changes. That ledger holds exactly one row under \<open>r\<close>: the row the first call
  wrote, unless \<open>r\<close> was already present, in which case the first call changed nothing
  either.
\<close>

theorem createDraftOrder_idempotent:
  assumes "unique_refs L" and "paymentId d1 = Some r" and "paymentId d2 = Some r"
  shows "\<exists>L1. createDraftOrder t1 d1 L = Inr (''o'' @ string_of_nat t1, L1) \<and>
              createDraftOrder t2 d2 L1 = Inr (''o'' @ string_of_nat t2, L1) \<and>
              L1 = (if r \<in> set (refs L) then L else L @ [draft_row t1 d1]) \<and>
              length (filter (\<lambda>x. payment_id x = Some r) L1) = 1 \<and>
              unique_refs L1"
proof -
  define L1 where "L1 = (if r \<in> set (refs L) then L else L @ [draft_row t1 d1])"
  have c1: "unique_conflict (draft_row t1 d1) L \<longleftrightarrow> r \<in> set (refs L)"
    using assms(2) by (simp add: unique_conflict_def)
  have first: "createDraftOrder t1 d1 L = Inr (''o'' @ string_of_nat t1, L1)"
    by (simp add: createDraftOrder_eq c1 L1_def)
  have present: "r \<in> set (refs L1)"
    using assms(2) by (simp add: L1_def refs_append refs_single)
  then have "unique_conflict (draft_row t2 d2) L1"
    using assms(3) by (simp add: unique_conflict_def)
  then have second: "createDraftOrder t2 d2 L1 = Inr (''o'' @ string_of_nat t2, L1)"
    by (simp add: createDraftOrder_eq)
  have uniq: "unique_refs L1"
    using assms(1) c1 by (simp add: L1_def unique_refs_insert)
  then have "length (filter (\<lambda>x. payment_id x = Some r) L1) = 1"
    using present by (simp add: rows_of_reference)
  with first second uniq show ?thesis
    unfolding L1_def by blast
qed

theorem createDraftOrder_idempotent_witness:
  "unique_refs [] \<and> paymentId draft_a = Some ''ref1'' \<and> paymentId draft_b = Some ''ref1'' \<and>
   (\<exists>L1. createDraftOrder 1000 draft_a [] = Inr (''o'' @ string_of_nat 1000, L1) \<and>
         createDraftOrder 2000 draft_b L1 = Inr (''o'' @ string_of_nat 2000, L1) \<and>
         L1 = [draft_row 1000 draft_a] \<and>
         length (filter (\<lambda>x. payment_id x = Some ''ref1'') L1) = 1 \<and>
         unique_refs L1)"
proof -
  have h: "unique_refs []" "paymentId draft_a = Some ''ref1''" "paymentId draft_b = Some ''ref1''"
    by (simp_all add: unique_refs_def refs_def draft_a_def draft_b_def)
  have "''ref1'' \<notin> set (refs [])"
    by (simp add: refs_def)
  with createDraftOrder_idempotent [OF h, of 1000 2000] h show ?thesis
    by simp
qed

section \<open>Verification of a reference without a row\<close>

lemma refs_update_paid [simp]: "refs (update_paid now r L) = refs L"
  by (induction L) (auto simp: update_paid_def refs_Cons split: option.splits)

lemma update_paid_no_row: "r \<notin> set (refs L) \<Longrightarrow> update_paid now r L = L"
proof -
  assume "r \<notin> set (refs L)"
  then have "\<forall>x \<in> set L. payment_id x \<noteq> Some r"
    unfolding mem_refs by (metis imageI)
  then show ?thesis
    unfolding update_paid_def by (induction L) simp_all
qed

text \<open>
  Claim C9. When the gateway reports success for a reference that no row carries, the
  handler answers success and the ledger is the same as before: the \<open>UPDATE\<close> matches
  no row.
\<close>

theorem verify_without_row:
  assumes "r \<noteq> []" and "r \<notin> set (refs L)" and "tx_status d = ''success''"
  shows "verifyPaystackPayment now (Some r) (Inr (Some d)) L =
           (Json 200
              [(''success'', JBool True),
               (''message'', JStr ''Payment verified''),
               (''order'', JRaw (tx_raw d))],
            L,
            [PaystackVerify r])"
  using assms by (simp add: verifyPaystackPayment_def update_paid_no_row)

theorem verify_without_row_witness:
  "''ref2'' \<noteq> [] \<and> ''ref2'' \<notin> set (refs [draft_row 1000 draft_a]) \<and>
   tx_status tx_success = ''success'' \<and>
   verifyPaystackPayment 5000 (Some ''ref2'') (Inr (Some tx_success)) [draft_row 1000 draft_a] =
     (Json 200
        [(''success'', JBool True),
         (''message'', JStr ''Payment verified''),
         (''order'', JRaw ''{}'')],
      [draft_row 1000 draft_a],
      [PaystackVerify ''ref2''])"
proof -
  have h: "''ref2'' \<noteq> []" "''ref2'' \<notin> set (refs [draft_row 1000 draft_a])"
    "tx_status tx_success = ''success''"
    by (simp_all add: refs_single draft_a_def tx_success_def)
  from verify_without_row [OF h, of 5000] h show ?thesis
    by (simp add: tx_success_def)
qed

section \<open>The webhook\<close>

text \<open>
  What the route does with the raw payload in hand. If the delivery passes the check in
  force (none without a signing secret, the signature otherwise) and its event is of a
  type the handler does not know, or carries its payment intent object, the answer is
  200 with \<open>{received: true}\<close>.
\<close>

lemma webhook_route_acknowledges:
  assumes "configured (STRIPE_WEBHOOK_SECRET e) \<longrightarrow> signed d"
    and "(ev_type (sent d) \<noteq> ''payment_intent.succeeded'' \<and>
          ev_type (sent d) \<noteq> ''payment_intent.payment_failed'') \<or>
         ev_object (sent d) = PaymentIntent i"
  shows "webhook_route e Buffer d = Json 200 [(''received'', JBool True)]"
proof -
  have "\<exists>l. handleStripeEvent (sent d) = Inr l"
    using assms(2) by (auto simp: handleStripeEvent_def)
  then have "acknowledge (handleStripeEvent (sent d)) = Json 200 [(''received'', JBool True)]"
    by (auto simp: acknowledge_def)
  with assms(1) show ?thesis
    by (simp add: webhook_route_def parse_body_def constructEvent_def)
qed

text \<open>
  The raw payload never reaches the route: \<open>express.json\<close> is registered first and has
  parsed the body before either \<open>bodyParser.raw\<close> runs.
\<close>

lemma webhook_body: "bodyParser_raw (bodyParser_raw (express_json Unread)) = ParsedObject"
  by (simp add: express_json_def bodyParser_raw_def)

lemma webhook_refuses:
  "webhook e d =
     (if configured (STRIPE_WEBHOOK_SECRET e)
      then Send 400 ''Webhook Error: Payload was provided as a parsed object''
      else Uncaught ''SyntaxError'')"
  by (simp add: webhook_def webhook_body webhook_route_def parse_body_def constructEvent_def)

text \<open>
  Claim C7, evaluated. A delivery of an event of unknown type, with no signing secret
  configured, is answered by the exception that \<open>JSON.parse\<close> throws on
  \<open>[object Object]\<close>; a correctly signed \<open>payment_intent.succeeded\<close> delivery, with the
  secret configured, is answered 400. Neither is acknowledged. The ledger is untouched
  in both cases.
\<close>

theorem webhook_not_acknowledged:
  "handle no_webhook_secret 1000 (Webhook unknown_delivery) L =
     (Uncaught ''SyntaxError'', L, []) \<and>
   handle all_keys 1000 (Webhook succeeded_delivery) L =
     (Send 400 ''Webhook Error: Payload was provided as a parsed object'', L, [])"
  by (simp add: webhook_refuses no_webhook_secret_def all_keys_def configured_def)

section \<open>Carts sold at a loss\<close>

lemma payment_intent_guard:
  assumes "body_cartItems body = Some cart"
    and "intent_totals cart (Num 0, Num 0) = (t, s)"
    and "js_lt (js_sub t s) (Num 0)"
  shows "create_payment_intent e body intent =
           (Json 400
              [(''success'', JBool False),
               (''message'', JStr ''Supplier cost exceeds customer price for items'')],
            [])"
proof (cases cart)
  case Nil
  with assms(2,3) show ?thesis
    by auto
next
  case (Cons it rest)
  with assms show ?thesis
    by (simp add: create_payment_intent_def failure_def)
qed

text \<open>
  On an integer of magnitude below \<open>1e21\<close> \<open>parseInt\<close> is the identity, and outside the
  plain range it reads the first digit.
\<close>

lemma parseInt10_of_int:
  "\<bar>k\<bar> < 1000000000000000000000 \<Longrightarrow> parseInt10 (Num (of_int k)) = Num (of_int k)"
proof -
  assume bound: "\<bar>k\<bar> < 1000000000000000000000"
  have "plain_decimal (of_int k)"
  proof (cases "k = 0")
    case True
    then show ?thesis
      by (simp add: plain_decimal_def)
  next
    case False
    then have "1 \<le> \<bar>k\<bar>"
      by simp
    then have "(1 :: rat) \<le> \<bar>of_int k\<bar>"
      by (metis of_int_1 of_int_abs of_int_le_iff)
    moreover have "\<bar>of_int k :: rat\<bar> < 1000000000000000000000"
      using bound by (metis of_int_abs of_int_less_iff of_int_numeral)
    ultimately show ?thesis
      by (simp add: plain_decimal_def)
  qed
  then show ?thesis
    by (simp add: parseInt10.simps)
qed

lemma parseInt10_exponent_form:
  "parseInt10 (Num (9 / 10000000)) = Num 9 \<and>
   parseInt10 (Num 1000000000000000000000) = Num 1 \<and>
   parseInt10 (Num (- 1500000000000000000000)) = Num (- 1)"
  by (simp add: parseInt10.simps plain_decimal_def first_digit_def first_digit_small.simps
        first_digit_large.simps floor_eq_iff)

lemma js_or_of_int_zero: "js_or (Num (of_int k)) (Num 0) = Num (of_int k)"
  by (simp add: js_or_def)

lemma js_or_counted: "js_or (js_or (Num (of_int q)) Undefined) (Num 1) = Num (of_int (counted q))"
  by (simp add: js_or_def counted_def)

lemma js_lt_Num: "js_lt (Num a) (Num b) = (a < b)"
  by simp

text \<open>
  On a cart of integer amounts the two totals of the route are the sums of price times
  quantity and of supplier cost times quantity.
\<close>

lemma intent_totals_cents:
  "list_all (\<lambda>(p, c, q). \<bar>p\<bar> < 9007199254740992 \<and> \<bar>c\<bar> < 9007199254740992 \<and>
                          \<bar>q\<bar> < 9007199254740992) xs \<Longrightarrow>
   intent_totals (map cents_item xs) (Num a, Num b) =
     (Num (a + of_int (\<Sum>(p, c, q)\<leftarrow>xs. p * counted q)),
      Num (b + of_int (\<Sum>(p, c, q)\<leftarrow>xs. c * counted q)))"
proof (induction xs arbitrary: a b)
  case Nil
  then show ?case by simp
next
  case (Cons x xs)
  obtain p c q where x: "x = (p, c, q)"
    by (cases x)
  with Cons.prems have bounds: "\<bar>p\<bar> < 9007199254740992" "\<bar>c\<bar> < 9007199254740992"
      "\<bar>q\<bar> < 9007199254740992"
    and rest: "list_all (\<lambda>(p, c, q). \<bar>p\<bar> < 9007199254740992 \<and> \<bar>c\<bar> < 9007199254740992 \<and>
                                     \<bar>q\<bar> < 9007199254740992) xs"
    by simp_all
  have "\<bar>counted q\<bar> < 9007199254740992"
    using bounds(3) by (simp add: counted_def)
  then have parse:
    "parseInt10 (Num (of_int p)) = Num (of_int p)"
    "parseInt10 (Num (of_int c)) = Num (of_int c)"
    "parseInt10 (Num (of_int (counted q))) = Num (of_int (counted q))"
    using bounds by (simp_all add: parseInt10_of_int)
  show ?case
    using Cons.IH [OF rest]
    by (simp add: x js_or_counted js_or_of_int_zero parse add.assoc)
qed

text \<open>
  The route truncates: a line priced 1.5 that costs the supplier 1.9 counts as 1
  against 1, the profit is 0, and the intent is created.
\<close>

lemma payment_intent_truncates:
  "create_payment_intent all_keys
     \<lparr> body_cartItems =
         Some [\<lparr> price = Num (3 / 2), supplierCost = Num (19 / 10), quantity = Num 1,
                 qty = Undefined \<rparr>],
       body_customer = None \<rparr>
     (Inr (Some ''secret'')) =
     (Json 200
        [(''clientSecret'', JStrOpt (Some ''secret'')),
         (''amount'', JNum (Num 1)),
         (''application_fee_amount'', JNum (Num 0)),
         (''supplier_share'', JNum (Num 1))],
      [StripeCreateIntent (Num 1) (Some (Num 0))])"
proof -
  have f: "\<lfloor>3 / 2 :: rat\<rfloor> = 1" "\<lfloor>19 / 10 :: rat\<rfloor> = 1"
    by (simp_all add: floor_eq_iff)
  have "parseInt10 (Num (3 / 2)) = Num 1" "parseInt10 (Num (19 / 10)) = Num 1"
    by (simp_all add: parseInt10.simps plain_decimal_def f)
  then show ?thesis
    by (simp add: create_payment_intent_def js_or_def all_keys_def configured_def)
qed

text \<open>
  Claim C3, as the code has it. Take a cart of integer amounts (cents, as the
  payment-intent route expects them) on which the arithmetic is exact. If the summed
  supplier share exceeds the summed total, the route answers 400: no outbound call is
  made and nothing is recorded.
\<close>

theorem payment_intent_rejects_loss:
  assumes "exact_cents xs"
    and "(\<Sum>(p, c, q)\<leftarrow>xs. p * counted q) < (\<Sum>(p, c, q)\<leftarrow>xs. c * counted q)"
  shows "handle e now
           (CreatePaymentIntent
              \<lparr> body_cartItems = Some (map cents_item xs), body_customer = cu \<rparr> intent) L =
           (Json 400
              [(''success'', JBool False),
               (''message'', JStr ''Supplier cost exceeds customer price for items'')],
            L, [])"
proof -
  have bounds: "list_all (\<lambda>(p, c, q). \<bar>p\<bar> < 9007199254740992 \<and> \<bar>c\<bar> < 9007199254740992 \<and>
                                       \<bar>q\<bar> < 9007199254740992) xs"
    using assms(1) by (simp add: exact_cents_def)
  have tot: "intent_totals (map cents_item xs) (Num 0, Num 0) =
          (Num (of_int (\<Sum>(p, c, q)\<leftarrow>xs. p * counted q)),
           Num (of_int (\<Sum>(p, c, q)\<leftarrow>xs. c * counted q)))"
    using intent_totals_cents [OF bounds, of 0 0] by simp
  have lt: "js_lt (js_sub (Num (of_int (\<Sum>(p, c, q)\<leftarrow>xs. p * counted q)))
                          (Num (of_int (\<Sum>(p, c, q)\<leftarrow>xs. c * counted q)))) (Num 0)"
    using assms(2) by (simp add: js_lt_Num del: js_lt.simps)
  have cart: "body_cartItems \<lparr> body_cartItems = Some (map cents_item xs), body_customer = cu \<rparr>
                = Some (map cents_item xs)"
    by simp
  show ?thesis
    using payment_intent_guard [OF cart tot lt] by simp
qed

theorem payment_intent_rejects_loss_witness:
  "exact_cents [(100, 200, 1)] \<and>
   (\<Sum>(p, c, q)\<leftarrow>[(100, 200, 1)]. p * counted q) < (\<Sum>(p, c, q)\<leftarrow>[(100, 200, 1)]. c * counted q) \<and>
   handle all_keys 1000 (CreatePaymentIntent loss_cents_body (Inr (Some ''secret''))) [] =
     (Json 400
        [(''success'', JBool False),
         (''message'', JStr ''Supplier cost exceeds customer price for items'')],
      [], []) \<and>
   exact_cents mixed_lines \<and>
   (\<Sum>(p, c, q)\<leftarrow>mixed_lines. p * counted q) = 2500 \<and>
   (\<Sum>(p, c, q)\<leftarrow>mixed_lines. c * counted q) = 2600 \<and>
   handle all_keys 1000
     (CreatePaymentIntent
        \<lparr> body_cartItems = Some (map cents_item mixed_lines), body_customer = None \<rparr>
        (Inr (Some ''secret''))) [] =
     (Json 400
        [(''success'', JBool False),
         (''message'', JStr ''Supplier cost exceeds customer price for items'')],
      [], [])"
proof -
  have a: "exact_cents [(100, 200, 1)]"
    "(\<Sum>(p, c, q)\<leftarrow>[(100, 200, 1)]. p * counted q) < (\<Sum>(p, c, q)\<leftarrow>[(100, 200, 1)]. c * counted q)"
    by (simp_all add: exact_cents_def counted_def)
  have b: "exact_cents mixed_lines"
    "(\<Sum>(p, c, q)\<leftarrow>mixed_lines. p * counted q) < (\<Sum>(p, c, q)\<leftarrow>mixed_lines. c * counted q)"
    by (simp_all add: exact_cents_def counted_def mixed_lines_def)
  have sums: "(\<Sum>(p, c, q)\<leftarrow>mixed_lines. p * counted q) = 2500"
    "(\<Sum>(p, c, q)\<leftarrow>mixed_lines. c * counted q) = 2600"
    by (simp_all add: counted_def mixed_lines_def)
  have body: "loss_cents_body =
                \<lparr> body_cartItems = Some (map cents_item [(100, 200, 1)]), body_customer = None \<rparr>"
    by (simp add: loss_cents_body_def)
  from payment_intent_rejects_loss [OF a, of all_keys 1000 None "Inr (Some ''secret'')" "[]"]
    payment_intent_rejects_loss [OF b, of all_keys 1000 None "Inr (Some ''secret'')" "[]"]
    a b sums
  show ?thesis
    by (simp add: body)
qed

text \<open>
  The OPay checkout has no such check. For a cart with one item priced 1.00 that costs
  the supplier 2.00 the totals are 100 and 200 cents; the handler looks up the rate,
  creates the invoice for 150000 kobo and records the draft with a profit of -100.
\<close>

lemma string_of_nat_example: "string_of_nat 1700000000000 = ''1700000000000''"
  by (simp add: string_of_nat.simps digit_def)

lemma loss_opay_totals: "opay_totals loss_cart (Num 0, Num 0) = (Num 100, Num 200)"
  by (simp add: loss_cart_def toCents_small js_or_def)

lemma fromCents_100: "fromCents (Num 100) = Num 1"
  by (simp add: fromCents_def)

theorem opay_accepts_loss_counterexample:
  "opay_totals loss_cart (Num 0, Num 0) = (Num 100, Num 200) \<and>
   js_lt (js_sub (Num 100) (Num 200)) (Num 0) \<and>
   createOpayOrderHandler all_keys 1700000000000 loss_body (Inr (Num 1500)) (Inr ''{}'') [] =
     (Json 200
        [(''success'', JBool True),
         (''data'', JRaw ''{}''),
         (''reference'', JStr ''opay_ref_1700000000000''),
         (''totalKobo'', JNum (Num 150000)),
         (''rate'', JNum (Num 1500))],
      [draft_row 1700000000000
         \<lparr> paymentId = Some ''opay_ref_1700000000000'', cartItems = Some loss_cart,
           customer = None, usdTotalCents = Num 100, koboTotal = Num 150000,
           supplierTotal = Num 200, profitCents = Num (- 100) \<rparr>],
      [RateLookup, OpayCreateInvoice ''opay_ref_1700000000000'' (Num 150000)])"
proof -
  have cart: "body_cartItems loss_body = Some loss_cart" and cust: "body_customer loss_body = None"
    by (simp_all add: loss_body_def)
  obtain it rest where split: "loss_cart = it # rest"
    by (simp add: loss_cart_def)
  have tot: "opay_totals (it # rest) (Num 0, Num 0) = (Num 100, Num 200)"
    using loss_opay_totals by (simp only: split)
  have rate: "fetchUsdToNgnRate all_keys (Inr (Num 1500)) = (Inr (Num 1500), [RateLookup])"
    by (simp add: fetchUsdToNgnRate_def all_keys_def configured_def)
  have key: "OPAY_SECRET_KEY all_keys \<noteq> None"
    by (simp add: all_keys_def)
  have "createOpayOrderHandler all_keys 1700000000000 loss_body (Inr (Num 1500)) (Inr ''{}'') [] =
     (Json 200
        [(''success'', JBool True),
         (''data'', JRaw ''{}''),
         (''reference'', JStr ''opay_ref_1700000000000''),
         (''totalKobo'', JNum (Num 150000)),
         (''rate'', JNum (Num 1500))],
      [draft_row 1700000000000
         \<lparr> paymentId = Some ''opay_ref_1700000000000'', cartItems = Some loss_cart,
           customer = None, usdTotalCents = Num 100, koboTotal = Num 150000,
           supplierTotal = Num 200, profitCents = Num (- 100) \<rparr>],
      [RateLookup, OpayCreateInvoice ''opay_ref_1700000000000'' (Num 150000)])"
    unfolding createOpayOrderHandler_def cart split list.case option.case tot prod.case rate
      Let_def
    using key
    by (simp add: fromCents_100 string_of_nat_example createDraftOrder_eq cust
          split [symmetric])
  then show ?thesis
    by (simp add: loss_opay_totals)
qed

section \<open>What a request does to the ledger\<close>

lemma length_update_paid [simp]: "length (update_paid now r L) = length L"
  by (simp add: update_paid_def)

lemma nth_update_paid:
  "i < length L \<Longrightarrow>
   update_paid now r L ! i =
     (if payment_id (L ! i) = Some r
      then (L ! i)\<lparr>status := ''paid'', processed_at := Some (now div 1000)\<rparr>
      else L ! i)"
  by (simp add: update_paid_def)

lemma paystack_ledger:
  "fst (snd (createPaystackOrderHandler now body init L)) = L \<or>
   (\<exists>d. fst (snd (createPaystackOrderHandler now body init L)) = L @ [draft_row now d])"
  by (auto simp: createPaystackOrderHandler_def Let_def createDraftOrder_eq
           split: option.splits list.splits sum.splits)

lemma opay_ledger:
  "fst (snd (createOpayOrderHandler e now body rateResp opayResp L)) = L \<or>
   (\<exists>d. fst (snd (createOpayOrderHandler e now body rateResp opayResp L)) = L @ [draft_row now d])"
  by (auto simp: createOpayOrderHandler_def Let_def createDraftOrder_eq
           split: option.splits list.splits sum.splits prod.splits)

lemma verify_ledger:
  "fst (snd (verifyPaystackPayment now reference verifyResp L)) =
     (case confirms (PaystackCallback reference verifyResp) of
        None \<Rightarrow> L
      | Some r \<Rightarrow> update_paid now r L)"
proof (cases reference)
  case None
  then show ?thesis
    by (simp add: verifyPaystackPayment_def)
next
  case (Some r)
  show ?thesis
  proof (cases verifyResp)
    case (Inl m)
    with Some show ?thesis
      by (simp add: verifyPaystackPayment_def)
  next
    case (Inr v)
    with Some show ?thesis
      by (cases v) (simp_all add: verifyPaystackPayment_def)
  qed
qed

lemma paystack_ledger_conflict:
  "fst (snd (createPaystackOrderHandler now body init L)) = L \<or>
   (\<exists>d. fst (snd (createPaystackOrderHandler now body init L)) =
          (if unique_conflict (draft_row now d) L then L else L @ [draft_row now d]))"
  by (auto simp: createPaystackOrderHandler_def Let_def createDraftOrder_eq
           split: option.splits list.splits sum.splits)

lemma opay_ledger_conflict:
  "fst (snd (createOpayOrderHandler e now body rateResp opayResp L)) = L \<or>
   (\<exists>d. fst (snd (createOpayOrderHandler e now body rateResp opayResp L)) =
          (if unique_conflict (draft_row now d) L then L else L @ [draft_row now d]))"
  by (auto simp: createOpayOrderHandler_def Let_def createDraftOrder_eq
           split: option.splits list.splits sum.splits prod.splits)

text \<open>
  Every request leaves the ledger as it was, appends one pending draft, or marks the
  rows of the reference it confirms as paid.
\<close>

lemma ledger_after_cases:
  "(confirms rq = None \<and>
      (ledger_after e now rq L = L \<or> (\<exists>d. ledger_after e now rq L = L @ [draft_row now d]))) \<or>
   (\<exists>r. confirms rq = Some r \<and> ledger_after e now rq L = update_paid now r L)"
proof (cases rq)
  case (CreatePaystackOrder body init)
  then show ?thesis
    using paystack_ledger [of now body init L] by (simp add: ledger_after_def)
next
  case (CreateOpayOrder body rateResp opayResp)
  then show ?thesis
    using opay_ledger [of e now body rateResp opayResp L] by (simp add: ledger_after_def)
next
  case (PaystackCallback reference verifyResp)
  then show ?thesis
    using verify_ledger [of now reference verifyResp L]
    by (cases "confirms rq") (simp_all add: ledger_after_def)
next
  case (CreatePaymentIntent body intent)
  then show ?thesis
    by (simp add: ledger_after_def split: prod.splits)
next
  case (Webhook w)
  then show ?thesis
    by (simp add: ledger_after_def)
qed

text \<open>A draft is appended only when its reference is not yet present.\<close>

lemma ledger_after_conflict:
  "ledger_after e now rq L = L \<or>
   (\<exists>d. ledger_after e now rq L =
          (if unique_conflict (draft_row now d) L then L else L @ [draft_row now d])) \<or>
   (\<exists>r. ledger_after e now rq L = update_paid now r L)"
proof (cases rq)
  case (CreatePaystackOrder body init)
  then show ?thesis
    using paystack_ledger_conflict [of now body init L]
    unfolding ledger_after_def CreatePaystackOrder handle.simps by blast
next
  case (CreateOpayOrder body rateResp opayResp)
  then show ?thesis
    using opay_ledger_conflict [of e now body rateResp opayResp L]
    unfolding ledger_after_def CreateOpayOrder handle.simps by blast
next
  case (PaystackCallback reference verifyResp)
  then show ?thesis
    using verify_ledger [of now reference verifyResp L]
    by (cases "confirms rq") (auto simp: ledger_after_def)
next
  case (CreatePaymentIntent body intent)
  then show ?thesis
    by (simp add: ledger_after_def split: prod.splits)
next
  case (Webhook w)
  then show ?thesis
    by (simp add: ledger_after_def)
qed

lemma length_ledger_after: "length L \<le> length (ledger_after e now rq L)"
  using ledger_after_cases [of rq e now L] by auto

text \<open>Only \<open>pending\<close> and \<open>paid\<close> are ever written.\<close>

lemma ledger_after_statuses:
  assumes "\<forall>x \<in> set L. status x = ''pending'' \<or> status x = ''paid''"
  shows "\<forall>x \<in> set (ledger_after e now rq L). status x = ''pending'' \<or> status x = ''paid''"
  using ledger_after_cases [of rq e now L] assms
  by (auto simp: update_paid_def)

lemma run_statuses:
  "\<forall>x \<in> set L. status x = ''pending'' \<or> status x = ''paid'' \<Longrightarrow>
   \<forall>x \<in> set (run e trace L). status x = ''pending'' \<or> status x = ''paid''"
proof (induction trace arbitrary: L)
  case Nil
  then show ?case by simp
next
  case (Cons a trace)
  obtain now rq where a: "a = (now, rq)"
    by (cases a)
  show ?case
    unfolding a run.simps
    by (rule Cons.IH) (rule ledger_after_statuses [OF Cons.prems])
qed

text \<open>The uniqueness of payment references holds in every ledger a run can reach.\<close>

lemma ledger_after_unique_refs:
  assumes "unique_refs L"
  shows "unique_refs (ledger_after e now rq L)"
proof -
  consider
    (same) "ledger_after e now rq L = L"
    | (draft) d where "ledger_after e now rq L =
                         (if unique_conflict (draft_row now d) L then L else L @ [draft_row now d])"
    | (paid) r where "ledger_after e now rq L = update_paid now r L"
    using ledger_after_conflict [of e now rq L] by (elim disjE conjE exE) blast+
  then show ?thesis
  proof cases
    case same
    with assms show ?thesis by simp
  next
    case draft
    with assms show ?thesis
      by (simp add: unique_refs_insert)
  next
    case paid
    with assms show ?thesis
      by (simp add: unique_refs_def)
  qed
qed

lemma run_unique_refs: "unique_refs L \<Longrightarrow> unique_refs (run e trace L)"
proof (induction trace arbitrary: L)
  case Nil
  then show ?case by simp
next
  case (Cons a trace)
  obtain now rq where a: "a = (now, rq)"
    by (cases a)
  show ?case
    unfolding a run.simps
    by (rule Cons.IH) (rule ledger_after_unique_refs [OF Cons.prems])
qed

section \<open>Status is terminal\<close>

text \<open>
  Claim C2. Take any ledger reached from the empty one by a run of requests, and a row
  whose status is no longer \<open>pending\<close>. Its status is \<open>paid\<close> (\<open>failed\<close> is never
  written), and whatever request comes next, the row is still there with the same
  status. Rows that the next request adds start as \<open>pending\<close>.
\<close>

theorem status_terminal:
  assumes "L = run e trace []" and "i < length L" and "status (L ! i) \<noteq> ''pending''"
  shows "i < length (ledger_after e now rq L) \<and>
         status (ledger_after e now rq L ! i) = status (L ! i) \<and>
         status (L ! i) = ''paid'' \<and>
         (\<forall>j. length L \<le> j \<and> j < length (ledger_after e now rq L) \<longrightarrow>
              status (ledger_after e now rq L ! j) = ''pending'')"
proof -
  have "\<forall>x \<in> set L. status x = ''pending'' \<or> status x = ''paid''"
    unfolding assms(1) by (rule run_statuses) simp
  with assms(2,3) have paid: "status (L ! i) = ''paid''"
    using nth_mem by blast
  consider
    (same) "ledger_after e now rq L = L"
    | (draft) d where "ledger_after e now rq L = L @ [draft_row now d]"
    | (paid) r where "ledger_after e now rq L = update_paid now r L"
    using ledger_after_cases [of rq e now L] by blast
  then show ?thesis
  proof cases
    case same
    with assms(2) paid show ?thesis by auto
  next
    case draft
    with assms(2) paid show ?thesis
      by (auto simp: nth_append less_Suc_eq_le)
  next
    case paid
    with assms(2) \<open>status (L ! i) = ''paid''\<close> show ?thesis
      by (auto simp: nth_update_paid)
  qed
qed

lemma run_append: "run e (xs @ ys) L = run e ys (run e xs L)"
  by (induction xs arbitrary: L) auto

lemma abuja_draft_created:
  "ledger_after e now (CreatePaystackOrder abuja_body (Inr (Some ref1_init))) [] =
     [draft_row now draft_a]"
  by (simp add: ledger_after_def abuja_paystack_handler draft_a_def)

lemma confirm_ref1_ledger: "ledger_after e now confirm_ref1 L = update_paid now ''ref1'' L"
  by (simp add: ledger_after_def confirm_ref1_def verify_ledger tx_success_def)

lemma paid_trace_run:
  "run e paid_trace [] =
     [(draft_row 1000000 draft_a)\<lparr>status := ''paid'', processed_at := Some 2000\<rparr>]"
  by (simp add: paid_trace_def abuja_draft_created confirm_ref1_ledger update_paid_def
        draft_a_def)

theorem status_terminal_witness:
  "0 < length (run all_keys paid_trace []) \<and>
   status (run all_keys paid_trace [] ! 0) \<noteq> ''pending'' \<and>
   status (ledger_after all_keys 3000000 confirm_ref1 (run all_keys paid_trace []) ! 0) = ''paid'' \<and>
   status (ledger_after all_keys 3000000 (Webhook succeeded_delivery)
             (run all_keys paid_trace []) ! 0) = ''paid''"
proof -
  have h: "0 < length (run all_keys paid_trace [])"
    "status (run all_keys paid_trace [] ! 0) \<noteq> ''pending''"
    by (simp_all add: paid_trace_run)
  from status_terminal [OF refl h, of 3000000 confirm_ref1]
    status_terminal [OF refl h, of 3000000 "Webhook succeeded_delivery"] h
  show ?thesis
    by simp
qed

section \<open>When \<open>processed_at\<close> is written\<close>

text \<open>
  Claim C8, as the code has it. A row starts with \<open>processed_at\<close> unset. A request
  changes the \<open>processed_at\<close> of an existing row in exactly one case: it is a successful
  verification of the row's reference, and then the column is set to the current time,
  whether or not it was set before. Every other request leaves it as it was.
\<close>

theorem processed_at_assignment:
  assumes "i < length L"
  shows "processed_at (ledger_after e now rq L ! i) =
           (if confirms rq \<noteq> None \<and> confirms rq = payment_id (L ! i)
            then Some (now div 1000) else processed_at (L ! i)) \<and>
         (\<forall>j. length L \<le> j \<and> j < length (ledger_after e now rq L) \<longrightarrow>
              processed_at (ledger_after e now rq L ! j) = None)"
proof -
  consider
    (same) "confirms rq = None" "ledger_after e now rq L = L"
    | (draft) d where "confirms rq = None" "ledger_after e now rq L = L @ [draft_row now d]"
    | (paid) r where "confirms rq = Some r" "ledger_after e now rq L = update_paid now r L"
    using ledger_after_cases [of rq e now L] by (elim disjE conjE exE) blast+
  then show ?thesis
  proof cases
    case same
    with assms show ?thesis by auto
  next
    case draft
    with assms show ?thesis
      by (auto simp: nth_append less_Suc_eq_le)
  next
    case paid
    with assms show ?thesis
      by (auto simp: nth_update_paid)
  qed
qed

theorem processed_at_assignment_witness:
  "0 < length (run all_keys paid_trace []) \<and>
   processed_at (run all_keys paid_trace [] ! 0) = Some 2000 \<and>
   processed_at (ledger_after all_keys 3000000 confirm_ref1 (run all_keys paid_trace []) ! 0)
     = Some 3000 \<and>
   processed_at (ledger_after all_keys 3000000 (Webhook succeeded_delivery)
                   (run all_keys paid_trace []) ! 0) = Some 2000"
proof -
  have h: "0 < length (run all_keys paid_trace [])"
    by (simp add: paid_trace_run)
  have c: "confirms confirm_ref1 = Some ''ref1''"
    by (simp add: confirm_ref1_def tx_success_def)
  have p: "payment_id (run all_keys paid_trace [] ! 0) = Some ''ref1''"
    by (simp add: paid_trace_run draft_a_def)
  from processed_at_assignment [OF h, of all_keys 3000000 confirm_ref1]
    processed_at_assignment [OF h, of all_keys 3000000 "Webhook succeeded_delivery"] h c p
  show ?thesis
    by (simp add: paid_trace_run)
qed

text \<open>
  The timestamp is not assigned once only: after the order under \<open>ref1\<close> has been
  marked paid at second 2000, a repeated successful verification at second 3000 leaves
  the status at \<open>paid\<close> and replaces the timestamp.
\<close>

theorem processed_at_counterexample:
  "map status (run all_keys paid_trace []) = [''paid''] \<and>
   map processed_at (run all_keys paid_trace []) = [Some 2000] \<and>
   map status (run all_keys (paid_trace @ [(3000000, confirm_ref1)]) []) = [''paid''] \<and>
   map processed_at (run all_keys (paid_trace @ [(3000000, confirm_ref1)]) []) = [Some 3000]"
  by (simp add: run_append paid_trace_run confirm_ref1_ledger update_paid_def draft_a_def)

end
